theory Spec2Isabelle
  imports Main
begin

section \<open>The announcement API: student and subscription routes\<close>

text \<open>
  The routes of \<^verbatim>\<open>api/routes/student.py\<close> and \<^verbatim>\<open>api/routes/subscription.py\<close> over an
  explicit database state. A route takes its request parameters, the decoded token where
  it depends on one, and the database last (as the Python signatures do), and returns
  what the Python function produces together with the database after the call: a raised
  \<^verbatim>\<open>HTTPException\<close> is \<open>Inl\<close>, a returned value is \<open>Inr\<close>.
\<close>

subsection \<open>Data model\<close>

text \<open>
  The records hold the columns and schema fields that the routes read. The wire schemas
  \<^verbatim>\<open>StudentCreate\<close> and \<^verbatim>\<open>StudentUpdate\<close> carry an email and a matricule; the stored
  student adds the primary key.
\<close>

record StudentBase =
  email :: string
  matricule :: string

type_synonym StudentCreate = StudentBase
type_synonym StudentUpdate = StudentBase

record Student = StudentBase +
  id_student :: int

record Channel =
  id_channel :: int

record Subscription =
  channel_id :: int
  student_id :: int

type_synonym SubscriptionCreate = Subscription

text \<open>
  The decoded bearer token. The student routes read \<^verbatim>\<open>current_student.id\<close>, the
  subscription routes read \<^verbatim>\<open>current_student.student_id\<close>; the record has both
  attributes, each under the name of the attribute the source reads.
\<close>

record StudentJWT =
  id_jwt :: int
  student_id_jwt :: int

record db =
  students :: "Student list"
  channels :: "Channel list"
  subscriptions :: "Subscription list"

subsection \<open>HTTP results\<close>

datatype HTTPException = HTTPException (status_code: nat) (detail: string)

text \<open>
  A \<^verbatim>\<open>JSONResponse\<close> object carries its own status code; Starlette's constructor
  defaults it to 200 when the caller passes only the content.
\<close>

datatype JSONResponse = JSONResponse (response_status: nat) (content: "(string \<times> string) list")

definition JSONResponse_content :: "(string \<times> string) list \<Rightarrow> JSONResponse" where
  "JSONResponse_content c = JSONResponse 200 c"

abbreviation HTTP_200_OK :: nat where "HTTP_200_OK \<equiv> 200"
abbreviation HTTP_201_CREATED :: nat where "HTTP_201_CREATED \<equiv> 201"
abbreviation HTTP_204_NO_CONTENT :: nat where "HTTP_204_NO_CONTENT \<equiv> 204"
abbreviation HTTP_400_BAD_REQUEST :: nat where "HTTP_400_BAD_REQUEST \<equiv> 400"
abbreviation HTTP_403_FORBIDDEN :: nat where "HTTP_403_FORBIDDEN \<equiv> 403"
abbreviation HTTP_404_NOT_FOUND :: nat where "HTTP_404_NOT_FOUND \<equiv> 404"

text \<open>
  The status the framework sends for a route declared with \<^verbatim>\<open>status_code=declared\<close>.
  A raised \<^verbatim>\<open>HTTPException\<close> is sent with its own status. A returned value is
  serialised and sent with the declared status (\<open>http_status\<close>). A returned response
  object is sent as it is, with the status it carries (\<open>http_status_response\<close>): the
  declared status is not applied to it.
\<close>

definition http_status :: "nat \<Rightarrow> HTTPException + 'a \<Rightarrow> nat" where
  "http_status declared r = (case r of Inl e \<Rightarrow> status_code e | Inr _ \<Rightarrow> declared)"

definition http_status_response :: "nat \<Rightarrow> HTTPException + JSONResponse \<Rightarrow> nat" where
  "http_status_response declared r =
     (case r of Inl e \<Rightarrow> status_code e | Inr resp \<Rightarrow> response_status resp)"

text \<open>Python's \<^verbatim>\<open>str\<close> of an integer, for the f-strings of the detail messages.\<close>

fun str_nat :: "nat \<Rightarrow> string" where
  "str_nat n =
     (if n < 10 then [char_of (48 + n)]
      else str_nat (n div 10) @ [char_of (48 + n mod 10)])"

declare str_nat.simps [simp del]

definition str_int :: "int \<Rightarrow> string" where
  "str_int i = (if i < 0 then CHR ''-'' # str_nat (nat (- i)) else str_nat (nat i))"

text \<open>
  Truthiness of an \<^verbatim>\<open>Optional[int]\<close> in \<^verbatim>\<open>if x:\<close>: \<^verbatim>\<open>None\<close> and \<^verbatim>\<open>0\<close> are false.
\<close>

fun truthy :: "int option \<Rightarrow> bool" where
  "truthy None = False"
| "truthy (Some n) = (n \<noteq> 0)"

subsection \<open>Data access (\<^verbatim>\<open>api.crud\<close>)\<close>

definition crud_get_student :: "db \<Rightarrow> int \<Rightarrow> Student option" where
  \<comment> \<open>Modelled from the spec: \<^verbatim>\<open>api.crud.student.get_student\<close> is not under src/;
      the spec has it as the lookup of a student by id.\<close>
  "crud_get_student d sid = find (\<lambda>s. id_student s = sid) (students d)"

definition crud_get_students :: "db \<Rightarrow> int \<Rightarrow> int \<Rightarrow> Student list" where
  \<comment> \<open>Modelled from the spec: \<^verbatim>\<open>api.crud.student.get_students\<close> is not under src/;
      the stored students, \<open>skip\<close> rows skipped and at most \<open>limit\<close> rows kept.\<close>
  "crud_get_students d skip limit = take (nat limit) (drop (nat skip) (students d))"

definition crud_get_student_by_email :: "db \<Rightarrow> string \<Rightarrow> Student option" where
  \<comment> \<open>Modelled from the spec: \<^verbatim>\<open>api.crud.student.get_student_by_email\<close> is not under
      src/; the spec has it as the lookup by the unique field email.\<close>
  "crud_get_student_by_email d e = find (\<lambda>s. email s = e) (students d)"

definition crud_get_student_by_matricule :: "db \<Rightarrow> string \<Rightarrow> Student option" where
  \<comment> \<open>Modelled from the spec: \<^verbatim>\<open>api.crud.student.get_student_by_matricule\<close> is not
      under src/; the spec has it as the lookup by the unique field matricule.\<close>
  "crud_get_student_by_matricule d m = find (\<lambda>s. matricule s = m) (students d)"

definition other_student_with_same_email :: "db \<Rightarrow> int \<Rightarrow> StudentUpdate \<Rightarrow> bool" where
  \<comment> \<open>Modelled from the spec: \<^verbatim>\<open>api.crud.student.other_student_with_same_email\<close> is not
      under src/; whether a student other than the target has the updated email.\<close>
  "other_student_with_same_email d sid student =
     list_ex (\<lambda>s. id_student s \<noteq> sid \<and> email s = email student) (students d)"

definition other_student_with_same_matricule :: "db \<Rightarrow> int \<Rightarrow> StudentUpdate \<Rightarrow> bool" where
  \<comment> \<open>Modelled from the spec: \<^verbatim>\<open>api.crud.student.other_student_with_same_matricule\<close> is
      not under src/; whether a student other than the target has the updated matricule.\<close>
  "other_student_with_same_matricule d sid student =
     list_ex (\<lambda>s. id_student s \<noteq> sid \<and> matricule s = matricule student) (students d)"

definition fresh_id :: "db \<Rightarrow> int" where
  \<comment> \<open>Modelled from the spec: the primary key the database gives a new student, an id
      that no stored student has.\<close>
  "fresh_id d = fold max (map id_student (students d)) 0 + 1"

definition crud_create_student :: "db \<Rightarrow> StudentCreate \<Rightarrow> Student \<times> db" where
  \<comment> \<open>Modelled from the spec: \<^verbatim>\<open>api.crud.student.create_student\<close> is not under src/;
      the insert of a student row, which is returned.\<close>
  "crud_create_student d student =
     (let row = \<lparr>email = email student, matricule = matricule student,
                 id_student = fresh_id d\<rparr>
      in (row, d\<lparr>students := students d @ [row]\<rparr>))"

definition crud_update_student :: "db \<Rightarrow> StudentUpdate \<Rightarrow> int \<Rightarrow> Student option \<times> db" where
  \<comment> \<open>Modelled from the spec: \<^verbatim>\<open>api.crud.student.update_student\<close> is not under src/;
      the update of the fields of the student row with the given id, which is returned.\<close>
  "crud_update_student d student sid =
     (let upd = (\<lambda>s. if id_student s = sid
                      then s\<lparr>email := email student, matricule := matricule student\<rparr>
                      else s);
          d' = d\<lparr>students := map upd (students d)\<rparr>
      in (crud_get_student d' sid, d'))"

definition crud_delete_student :: "db \<Rightarrow> int \<Rightarrow> db" where
  \<comment> \<open>Modelled from the spec: \<^verbatim>\<open>api.crud.student.delete_student\<close> is not under src/;
      the delete of the student row with the given id.\<close>
  "crud_delete_student d sid = d\<lparr>students := filter (\<lambda>s. id_student s \<noteq> sid) (students d)\<rparr>"

definition get_channel :: "db \<Rightarrow> int \<Rightarrow> Channel option" where
  \<comment> \<open>Modelled from the spec: \<^verbatim>\<open>api.crud.channel.get_channel\<close> is not under src/;
      the spec has it as the lookup of a channel by id.\<close>
  "get_channel d cid = find (\<lambda>c. id_channel c = cid) (channels d)"

definition get_sub_by_channel_and_student :: "db \<Rightarrow> int \<Rightarrow> int \<Rightarrow> Subscription option" where
  \<comment> \<open>Modelled from the spec: \<^verbatim>\<open>api.crud.subscription.get_sub_by_channel_and_student\<close>
      is not under src/; the spec has it as the lookup by the composite filter, and the
      routes test its result against \<^verbatim>\<open>None\<close>.\<close>
  "get_sub_by_channel_and_student d cid sid =
     find (\<lambda>s. channel_id s = cid \<and> student_id s = sid) (subscriptions d)"

definition get_subscriptions_for_channel :: "db \<Rightarrow> int \<Rightarrow> Subscription list" where
  \<comment> \<open>Modelled from the spec: \<^verbatim>\<open>api.crud.subscription.get_subscriptions_for_channel\<close>
      is not under src/; the subscriptions of the given channel.\<close>
  "get_subscriptions_for_channel d cid = filter (\<lambda>s. channel_id s = cid) (subscriptions d)"

definition get_subscriptions_for_student :: "db \<Rightarrow> int \<Rightarrow> Subscription list" where
  \<comment> \<open>Modelled from the spec: \<^verbatim>\<open>api.crud.subscription.get_subscriptions_for_student\<close>
      is not under src/; the subscriptions of the given student.\<close>
  "get_subscriptions_for_student d sid = filter (\<lambda>s. student_id s = sid) (subscriptions d)"

definition crud_get_subscriptions :: "db \<Rightarrow> int \<Rightarrow> int \<Rightarrow> Subscription list" where
  \<comment> \<open>Modelled from the spec: \<^verbatim>\<open>api.crud.subscription.get_subscriptions\<close> is not under
      src/; the stored subscriptions, \<open>skip\<close> rows skipped and at most \<open>limit\<close> rows kept.\<close>
  "crud_get_subscriptions d skip limit = take (nat limit) (drop (nat skip) (subscriptions d))"

definition subscribe :: "db \<Rightarrow> SubscriptionCreate \<Rightarrow> Subscription \<times> db" where
  \<comment> \<open>Modelled from the spec: \<^verbatim>\<open>api.crud.subscription.subscribe\<close> is not under src/;
      the insert of a subscription row, which is returned.\<close>
  "subscribe d subscription =
     (let row = \<lparr>channel_id = channel_id subscription, student_id = student_id subscription\<rparr>
      in (row, d\<lparr>subscriptions := subscriptions d @ [row]\<rparr>))"

definition crud_unsubscribe :: "db \<Rightarrow> int \<Rightarrow> int \<Rightarrow> db" where
  \<comment> \<open>Modelled from the spec: \<^verbatim>\<open>api.crud.subscription.unsubscribe\<close> is not under src/;
      the delete of the subscription rows of the given pair.\<close>
  "crud_unsubscribe d cid sid =
     d\<lparr>subscriptions := filter (\<lambda>s. \<not> (channel_id s = cid \<and> student_id s = sid)) (subscriptions d)\<rparr>"

subsection \<open>Student routes (\<^verbatim>\<open>api/routes/student.py\<close>)\<close>

definition get_students :: "int \<Rightarrow> int \<Rightarrow> db \<Rightarrow> (HTTPException + Student list) \<times> db" where
  "get_students skip limit d = (Inr (crud_get_students d skip limit), d)"

definition get_single_student :: "int \<Rightarrow> db \<Rightarrow> (HTTPException + Student) \<times> db" where
  "get_single_student sid d =
     (case crud_get_student d sid of
        None \<Rightarrow>
          (Inl (HTTPException HTTP_404_NOT_FOUND
                  (''Student with id '' @ str_int sid @ '' could not be found'')), d)
      | Some db_student \<Rightarrow> (Inr db_student, d))"

definition create_student :: "StudentCreate \<Rightarrow> db \<Rightarrow> (HTTPException + Student) \<times> db" where
  "create_student student d =
     (if crud_get_student_by_email d (email student) \<noteq> None
      then (Inl (HTTPException HTTP_400_BAD_REQUEST ''Email already exists''), d)
      else if crud_get_student_by_matricule d (matricule student) \<noteq> None
      then (Inl (HTTPException HTTP_400_BAD_REQUEST ''Matricule already exists''), d)
      else (case crud_create_student d student of (row, d') \<Rightarrow> (Inr row, d')))"

definition update_student ::
  "int \<Rightarrow> StudentUpdate \<Rightarrow> StudentJWT \<Rightarrow> db \<Rightarrow> (HTTPException + Student option) \<times> db" where
  "update_student sid student current_student d =
     (case crud_get_student d sid of
        None \<Rightarrow>
          (Inl (HTTPException HTTP_404_NOT_FOUND (''No student with ID '' @ str_int sid)), d)
      | Some db_student \<Rightarrow>
          if id_student db_student \<noteq> id_jwt current_student
          then (Inl (HTTPException HTTP_403_FORBIDDEN ''Permission denied''), d)
          else if other_student_with_same_email d sid student
          then (Inl (HTTPException HTTP_400_BAD_REQUEST ''Email already exists''), d)
          else if other_student_with_same_matricule d sid student
          then (Inl (HTTPException HTTP_400_BAD_REQUEST ''Matricule already exists''), d)
          else (case crud_update_student d student sid of (row, d') \<Rightarrow> (Inr row, d')))"

definition delete_student ::
  "int \<Rightarrow> StudentJWT \<Rightarrow> db \<Rightarrow> (HTTPException + JSONResponse) \<times> db" where
  "delete_student sid current_student d =
     (case crud_get_student d sid of
        None \<Rightarrow>
          (Inl (HTTPException HTTP_404_NOT_FOUND (''No student with ID '' @ str_int sid)), d)
      | Some db_student \<Rightarrow>
          if id_student db_student \<noteq> id_jwt current_student
          then (Inl (HTTPException HTTP_403_FORBIDDEN ''Permission denied''), d)
          else (Inr (JSONResponse_content [(''detail'', ''Student deleted'')]),
                crud_delete_student d sid))"

subsection \<open>Subscription routes (\<^verbatim>\<open>api/routes/subscription.py\<close>)\<close>

text \<open>
  \<^verbatim>\<open>get_subscriptions\<close> returns what the data-access function of its branch returns:
  the single optional row of the composite lookup, or a list of rows.
\<close>

datatype sub_rows = Row "Subscription option" | Rows "Subscription list"

definition get_subscriptions ::
  "int option \<Rightarrow> int option \<Rightarrow> int \<Rightarrow> int \<Rightarrow> db \<Rightarrow> (HTTPException + sub_rows) \<times> db" where
  "get_subscriptions cid sid skip limit d =
     (if cid \<noteq> None \<and> sid \<noteq> None
      then (Inr (Row (get_sub_by_channel_and_student d (the cid) (the sid))), d)
      else if truthy cid
      then (Inr (Rows (get_subscriptions_for_channel d (the cid))), d)
      else if truthy sid
      then (Inr (Rows (get_subscriptions_for_student d (the sid))), d)
      else (Inr (Rows (crud_get_subscriptions d skip limit)), d))"

definition create_new_subscription ::
  "SubscriptionCreate \<Rightarrow> StudentJWT \<Rightarrow> db \<Rightarrow> (HTTPException + Subscription) \<times> db" where
  "create_new_subscription subscription current_student d =
     (let db_subscription =
            get_sub_by_channel_and_student d (channel_id subscription) (student_id subscription)
      in if student_id subscription \<noteq> student_id_jwt current_student
         then (Inl (HTTPException HTTP_403_FORBIDDEN ''Permission denied''), d)
         else if db_subscription \<noteq> None
         then (Inl (HTTPException HTTP_400_BAD_REQUEST ''Already subscribed''), d)
         else if get_channel d (channel_id subscription) = None
         then (Inl (HTTPException HTTP_404_NOT_FOUND
                      ''Channel with specified ID does not exist''), d)
         else if crud_get_student d (student_id subscription) = None
         then (Inl (HTTPException HTTP_404_NOT_FOUND
                      ''Student with specified ID does not exist''), d)
         else (case subscribe d subscription of (row, d') \<Rightarrow> (Inr row, d')))"

definition unsubscribe ::
  "int \<Rightarrow> int \<Rightarrow> StudentJWT \<Rightarrow> db \<Rightarrow> (HTTPException + JSONResponse) \<times> db" where
  "unsubscribe cid sid current_student d =
     (if sid \<noteq> student_id_jwt current_student
      then (Inl (HTTPException HTTP_403_FORBIDDEN ''Permission denied''), d)
      else if get_sub_by_channel_and_student d cid sid = None
      then (Inl (HTTPException HTTP_404_NOT_FOUND ''No such entry found in database''), d)
      else (Inr (JSONResponse_content [(''detail'', ''Unsubscribed'')]),
            crud_unsubscribe d cid sid))"

subsection \<open>The routes as one step function\<close>

text \<open>
  A request names a route of the two routers with its parameters and, where the route
  depends on one, the decoded token. \<open>step\<close> is the database after the route has run,
  \<open>run\<close> the database after a sequence of requests.
\<close>

datatype request =
    GetStudents int int
  | GetSingleStudent int
  | CreateStudent StudentCreate
  | UpdateStudent int StudentUpdate StudentJWT
  | DeleteStudent int StudentJWT
  | GetSubscriptions "int option" "int option" int int
  | CreateNewSubscription SubscriptionCreate StudentJWT
  | Unsubscribe int int StudentJWT

fun step :: "request \<Rightarrow> db \<Rightarrow> db" where
  "step (GetStudents skip limit) d = snd (get_students skip limit d)"
| "step (GetSingleStudent sid) d = snd (get_single_student sid d)"
| "step (CreateStudent student) d = snd (create_student student d)"
| "step (UpdateStudent sid student cur) d = snd (update_student sid student cur d)"
| "step (DeleteStudent sid cur) d = snd (delete_student sid cur d)"
| "step (GetSubscriptions cid sid skip limit) d = snd (get_subscriptions cid sid skip limit d)"
| "step (CreateNewSubscription subscription cur) d = snd (create_new_subscription subscription cur d)"
| "step (Unsubscribe cid sid cur) d = snd (unsubscribe cid sid cur d)"

fun run :: "request list \<Rightarrow> db \<Rightarrow> db" where
  "run [] d = d"
| "run (r # rs) d = run rs (step r d)"

text \<open>The invariant: no two subscription rows have the same (channel, student) pair.\<close>

definition sub_unique :: "db \<Rightarrow> bool" where
  "sub_unique d = distinct (map (\<lambda>s. (channel_id s, student_id s)) (subscriptions d))"

subsection \<open>What is stored, and a database to run the routes on\<close>

definition student_stored :: "db \<Rightarrow> int \<Rightarrow> bool" where
  "student_stored d sid = list_ex (\<lambda>s. id_student s = sid) (students d)"

definition channel_stored :: "db \<Rightarrow> int \<Rightarrow> bool" where
  "channel_stored d cid = list_ex (\<lambda>c. id_channel c = cid) (channels d)"

definition subscribed :: "db \<Rightarrow> int \<Rightarrow> int \<Rightarrow> bool" where
  "subscribed d cid sid =
     list_ex (\<lambda>s. channel_id s = cid \<and> student_id s = sid) (subscriptions d)"

text \<open>
  Two students, two channels; student 1 is subscribed to both channels. \<open>jwt i\<close> is the
  decoded token of the student with id \<open>i\<close>.
\<close>

definition db0 :: db where
  "db0 = \<lparr>students = [\<lparr>email = ''a@x.org'', matricule = ''M1'', id_student = 1\<rparr>,
                       \<lparr>email = ''b@x.org'', matricule = ''M2'', id_student = 2\<rparr>],
          channels = [\<lparr>id_channel = 1\<rparr>, \<lparr>id_channel = 2\<rparr>],
          subscriptions = [\<lparr>channel_id = 1, student_id = 1\<rparr>,
                           \<lparr>channel_id = 2, student_id = 1\<rparr>]\<rparr>"

definition jwt :: "int \<Rightarrow> StudentJWT" where
  "jwt i = \<lparr>id_jwt = i, student_id_jwt = i\<rparr>"

section \<open>Properties\<close>

subsection \<open>Lookups\<close>

lemma find_None_list_ex: "(find P xs = None) = (\<not> list_ex P xs)"
  by (auto simp: find_None_iff list_ex_iff)

lemma crud_get_student_None: "(crud_get_student d sid = None) = (\<not> student_stored d sid)"
  by (simp add: crud_get_student_def student_stored_def find_None_list_ex)

lemma crud_get_student_id: "crud_get_student d sid = Some s \<Longrightarrow> id_student s = sid"
  by (auto simp: crud_get_student_def find_Some_iff)

lemma get_channel_None: "(get_channel d cid = None) = (\<not> channel_stored d cid)"
  by (simp add: get_channel_def channel_stored_def find_None_list_ex)

lemma get_sub_None:
  "(get_sub_by_channel_and_student d cid sid = None) = (\<not> subscribed d cid sid)"
  by (simp add: get_sub_by_channel_and_student_def subscribed_def find_None_list_ex)

lemma str_int_7: "str_int 7 = ''7''"
  by code_simp

lemmas db0_simps =
  db0_def jwt_def student_stored_def channel_stored_def subscribed_def

lemmas crud_simps =
  crud_get_student_def crud_get_student_by_email_def crud_get_student_by_matricule_def
  other_student_with_same_email_def other_student_with_same_matricule_def
  crud_create_student_def crud_update_student_def crud_delete_student_def fresh_id_def
  get_channel_def get_sub_by_channel_and_student_def subscribe_def crud_unsubscribe_def

subsection \<open>The routes keep the subscription pairs distinct\<close>

lemma sub_unique_create_new_subscription:
  "sub_unique d \<Longrightarrow> sub_unique (snd (create_new_subscription subscription cur d))"
  by (auto simp: create_new_subscription_def sub_unique_def subscribe_def Let_def
      get_sub_by_channel_and_student_def find_None_iff)

lemma sub_unique_unsubscribe:
  "sub_unique d \<Longrightarrow> sub_unique (snd (unsubscribe cid sid cur d))"
  by (auto simp: unsubscribe_def sub_unique_def crud_unsubscribe_def distinct_map_filter)

lemma subscriptions_create_student:
  "subscriptions (snd (create_student student d)) = subscriptions d"
  by (simp add: create_student_def crud_create_student_def Let_def)

lemma subscriptions_update_student:
  "subscriptions (snd (update_student sid student cur d)) = subscriptions d"
  by (simp add: update_student_def crud_update_student_def Let_def split: option.splits)

lemma subscriptions_delete_student:
  "subscriptions (snd (delete_student sid cur d)) = subscriptions d"
  by (simp add: delete_student_def crud_delete_student_def split: option.splits)

lemma sub_unique_step: "sub_unique d \<Longrightarrow> sub_unique (step r d)"
proof (cases r)
  case (CreateNewSubscription subscription cur)
  assume "sub_unique d"
  with CreateNewSubscription show ?thesis by (simp add: sub_unique_create_new_subscription)
next
  case (Unsubscribe cid sid cur)
  assume "sub_unique d"
  with Unsubscribe show ?thesis by (simp add: sub_unique_unsubscribe)
next
  case (CreateStudent student)
  assume "sub_unique d"
  with CreateStudent show ?thesis by (simp add: sub_unique_def subscriptions_create_student)
next
  case (UpdateStudent sid student cur)
  assume "sub_unique d"
  with UpdateStudent show ?thesis by (simp add: sub_unique_def subscriptions_update_student)
next
  case (DeleteStudent sid cur)
  assume "sub_unique d"
  with DeleteStudent show ?thesis by (simp add: sub_unique_def subscriptions_delete_student)
next
  case (GetStudents skip limit)
  assume "sub_unique d"
  with GetStudents show ?thesis by (simp add: get_students_def)
next
  case (GetSingleStudent sid)
  assume "sub_unique d"
  with GetSingleStudent show ?thesis by (simp add: get_single_student_def split: option.splits)
next
  case (GetSubscriptions cid sid skip limit)
  assume "sub_unique d"
  with GetSubscriptions show ?thesis by (simp add: get_subscriptions_def)
qed

text \<open>
  C1. From a database in which no two subscription rows have the same (channel, student)
  pair, every sequence of requests to the student and subscription routes leads to a
  database in which that still holds: each route preserves the invariant, and so every
  state reached from one that satisfies it (the empty database is one) satisfies it.
\<close>

theorem sub_unique_run: "sub_unique d \<Longrightarrow> sub_unique (run rs d)"
proof (induction rs arbitrary: d)
  case Nil
  then show ?case by simp
next
  case (Cons r rs)
  from Cons.prems have "sub_unique (step r d)" by (rule sub_unique_step)
  then show ?case by (simp add: Cons.IH)
qed

theorem sub_unique_run_witness:
  "sub_unique db0
   \<and> sub_unique (run [CreateNewSubscription \<lparr>channel_id = 1, student_id = 2\<rparr> (jwt 2),
                       CreateNewSubscription \<lparr>channel_id = 1, student_id = 2\<rparr> (jwt 2),
                       Unsubscribe 2 1 (jwt 1)] db0)
   \<and> subscriptions (run [CreateNewSubscription \<lparr>channel_id = 1, student_id = 2\<rparr> (jwt 2),
                          CreateNewSubscription \<lparr>channel_id = 1, student_id = 2\<rparr> (jwt 2),
                          Unsubscribe 2 1 (jwt 1)] db0)
       = [\<lparr>channel_id = 1, student_id = 1\<rparr>, \<lparr>channel_id = 1, student_id = 2\<rparr>]"
proof -
  let ?rs = "[CreateNewSubscription \<lparr>channel_id = 1, student_id = 2\<rparr> (jwt 2),
              CreateNewSubscription \<lparr>channel_id = 1, student_id = 2\<rparr> (jwt 2),
              Unsubscribe 2 1 (jwt 1)]"
  have h: "sub_unique db0"
    by (simp add: sub_unique_def db0_def)
  have r: "subscriptions (run ?rs db0)
             = [\<lparr>channel_id = 1, student_id = 1\<rparr>, \<lparr>channel_id = 1, student_id = 2\<rparr>]"
    by (simp add: create_new_subscription_def unsubscribe_def crud_simps db0_simps Let_def)
  show ?thesis
    using h r sub_unique_run [OF h, of ?rs] by simp
qed

subsection \<open>Student routes\<close>

text \<open>
  C2. A create-student request whose email or whose matricule is that of a stored student
  raises an HTTPException with status 400, which is the status of the response, and
  leaves the database as it was: no student is created.
\<close>

theorem create_student_duplicate:
  assumes "list_ex (\<lambda>s. email s = email student \<or> matricule s = matricule student) (students d)"
  shows "(\<exists>msg. create_student student d = (Inl (HTTPException HTTP_400_BAD_REQUEST msg), d))
       \<and> http_status HTTP_201_CREATED (fst (create_student student d)) = HTTP_400_BAD_REQUEST"
proof (cases "crud_get_student_by_email d (email student) = None")
  case False
  then show ?thesis by (simp add: create_student_def http_status_def)
next
  case True
  with assms have "crud_get_student_by_matricule d (matricule student) \<noteq> None"
    by (auto simp: crud_get_student_by_email_def crud_get_student_by_matricule_def
        find_None_iff list_ex_iff)
  with True show ?thesis by (simp add: create_student_def http_status_def)
qed

theorem create_student_duplicate_witness:
  "list_ex (\<lambda>s. email s = ''new@x.org'' \<or> matricule s = ''M2'') (students db0)
   \<and> create_student \<lparr>email = ''new@x.org'', matricule = ''M2''\<rparr> db0
       = (Inl (HTTPException HTTP_400_BAD_REQUEST ''Matricule already exists''), db0)
   \<and> list_ex (\<lambda>s. email s = ''a@x.org'' \<or> matricule s = ''M9'') (students db0)
   \<and> create_student \<lparr>email = ''a@x.org'', matricule = ''M9''\<rparr> db0
       = (Inl (HTTPException HTTP_400_BAD_REQUEST ''Email already exists''), db0)"
proof -
  have h1: "list_ex (\<lambda>s. email s = email \<lparr>email = ''new@x.org'', matricule = ''M2''\<rparr>
                        \<or> matricule s = matricule \<lparr>email = ''new@x.org'', matricule = ''M2''\<rparr>)
              (students db0)"
    by (simp add: db0_def)
  have h2: "list_ex (\<lambda>s. email s = email \<lparr>email = ''a@x.org'', matricule = ''M9''\<rparr>
                        \<or> matricule s = matricule \<lparr>email = ''a@x.org'', matricule = ''M9''\<rparr>)
              (students db0)"
    by (simp add: db0_def)
  show ?thesis
    using create_student_duplicate [OF h1] create_student_duplicate [OF h2]
    by (simp add: create_student_def crud_simps db0_simps Let_def)
qed

text \<open>
  C3. When the target student is stored and the id of the authenticated caller differs
  from the target id, update-student and delete-student each raise an HTTPException with
  status 403, which is the status of the response, and leave the database (and so the
  stored student) as it was.
\<close>

theorem update_delete_forbidden:
  assumes "student_stored d sid" and "id_jwt current_student \<noteq> sid"
  shows "update_student sid student current_student d =
           (Inl (HTTPException HTTP_403_FORBIDDEN ''Permission denied''), d)
       \<and> http_status HTTP_200_OK (fst (update_student sid student current_student d))
           = HTTP_403_FORBIDDEN
       \<and> delete_student sid current_student d =
           (Inl (HTTPException HTTP_403_FORBIDDEN ''Permission denied''), d)
       \<and> http_status_response HTTP_204_NO_CONTENT (fst (delete_student sid current_student d))
           = HTTP_403_FORBIDDEN"
proof -
  from assms(1) obtain s where s: "crud_get_student d sid = Some s"
    using crud_get_student_None [of d sid] by (cases "crud_get_student d sid") auto
  then have "id_student s = sid" by (rule crud_get_student_id)
  with s assms(2) show ?thesis
    by (auto simp: update_student_def delete_student_def http_status_def
        http_status_response_def)
qed

theorem update_delete_forbidden_witness:
  "student_stored db0 1 \<and> id_jwt (jwt 2) \<noteq> 1
   \<and> update_student 1 \<lparr>email = ''c@x.org'', matricule = ''M3''\<rparr> (jwt 2) db0 =
       (Inl (HTTPException HTTP_403_FORBIDDEN ''Permission denied''), db0)
   \<and> delete_student 1 (jwt 2) db0 =
       (Inl (HTTPException HTTP_403_FORBIDDEN ''Permission denied''), db0)"
proof -
  have h1: "student_stored db0 1" by (simp add: db0_simps)
  have h2: "id_jwt (jwt 2) \<noteq> 1" by (simp add: jwt_def)
  show ?thesis
    using h1 h2 update_delete_forbidden [OF h1 h2] by simp
qed

text \<open>
  C4. When no student with the target id is stored, update-student and delete-student
  each raise an HTTPException with status 404, which is the status of the response,
  whoever the authenticated caller is, and leave the database as it was.
\<close>

theorem update_delete_not_found:
  assumes "\<not> student_stored d sid"
  shows "update_student sid student current_student d =
           (Inl (HTTPException HTTP_404_NOT_FOUND (''No student with ID '' @ str_int sid)), d)
       \<and> http_status HTTP_200_OK (fst (update_student sid student current_student d))
           = HTTP_404_NOT_FOUND
       \<and> delete_student sid current_student d =
           (Inl (HTTPException HTTP_404_NOT_FOUND (''No student with ID '' @ str_int sid)), d)
       \<and> http_status_response HTTP_204_NO_CONTENT (fst (delete_student sid current_student d))
           = HTTP_404_NOT_FOUND"
  using assms
  by (simp add: update_student_def delete_student_def http_status_def http_status_response_def
      crud_get_student_None [symmetric])

theorem update_delete_not_found_witness:
  "\<not> student_stored db0 7
   \<and> update_student 7 \<lparr>email = ''c@x.org'', matricule = ''M3''\<rparr> (jwt 1) db0 =
       (Inl (HTTPException HTTP_404_NOT_FOUND ''No student with ID 7''), db0)
   \<and> delete_student 7 (jwt 1) db0 =
       (Inl (HTTPException HTTP_404_NOT_FOUND ''No student with ID 7''), db0)
   \<and> delete_student 7 (jwt 7) db0 =
       (Inl (HTTPException HTTP_404_NOT_FOUND ''No student with ID 7''), db0)"
proof -
  have h: "\<not> student_stored db0 7" by (simp add: db0_simps)
  show ?thesis
    using h update_delete_not_found [OF h, of _ "jwt 1"] update_delete_not_found [OF h, of _ "jwt 7"]
    by (simp add: str_int_7)
qed

subsection \<open>Subscription routes\<close>

text \<open>
  C5. When a subscription for the (channel, student) pair of the request is stored and
  the caller is that student, create-subscription raises an HTTPException with status
  400, which is the status of the response, and leaves the database (and so the
  subscriptions) as it was.
\<close>

theorem subscribe_twice:
  assumes "subscribed d (channel_id subscription) (student_id subscription)"
    and "student_id_jwt current_student = student_id subscription"
  shows "create_new_subscription subscription current_student d =
           (Inl (HTTPException HTTP_400_BAD_REQUEST ''Already subscribed''), d)
       \<and> http_status HTTP_201_CREATED (fst (create_new_subscription subscription current_student d))
           = HTTP_400_BAD_REQUEST"
  using assms by (simp add: create_new_subscription_def get_sub_None http_status_def)

theorem subscribe_twice_witness:
  "fst (create_new_subscription \<lparr>channel_id = 2, student_id = 2\<rparr> (jwt 2) db0)
     = Inr \<lparr>channel_id = 2, student_id = 2\<rparr>
   \<and> subscribed (snd (create_new_subscription \<lparr>channel_id = 2, student_id = 2\<rparr> (jwt 2) db0)) 2 2
   \<and> create_new_subscription \<lparr>channel_id = 2, student_id = 2\<rparr> (jwt 2)
       (snd (create_new_subscription \<lparr>channel_id = 2, student_id = 2\<rparr> (jwt 2) db0))
     = (Inl (HTTPException HTTP_400_BAD_REQUEST ''Already subscribed''),
        snd (create_new_subscription \<lparr>channel_id = 2, student_id = 2\<rparr> (jwt 2) db0))"
proof -
  let ?sub = "\<lparr>channel_id = 2, student_id = 2\<rparr>"
  let ?d = "snd (create_new_subscription ?sub (jwt 2) db0)"
  have first: "create_new_subscription ?sub (jwt 2) db0
                 = (Inr ?sub, db0\<lparr>subscriptions := subscriptions db0 @ [?sub]\<rparr>)"
    by (simp add: create_new_subscription_def crud_simps db0_simps Let_def)
  have h1: "subscribed ?d (channel_id ?sub) (student_id ?sub)"
    by (simp add: first subscribed_def)
  have h2: "student_id_jwt (jwt 2) = student_id ?sub"
    by (simp add: jwt_def)
  show ?thesis
    using first h1 subscribe_twice [OF h1 h2] by simp
qed

text \<open>
  C6. When the caller is the student of the request and no subscription for the
  (channel, student) pair is stored, delete-subscription raises an HTTPException with
  status 404, which is the status of the response, and leaves the database as it was.
\<close>

theorem unsubscribe_not_found:
  assumes "student_id_jwt current_student = sid" and "\<not> subscribed d cid sid"
  shows "unsubscribe cid sid current_student d =
           (Inl (HTTPException HTTP_404_NOT_FOUND ''No such entry found in database''), d)
       \<and> http_status_response HTTP_204_NO_CONTENT (fst (unsubscribe cid sid current_student d))
           = HTTP_404_NOT_FOUND"
  using assms by (simp add: unsubscribe_def get_sub_None http_status_response_def)

theorem unsubscribe_not_found_witness:
  "student_id_jwt (jwt 2) = 2 \<and> \<not> subscribed db0 1 2
   \<and> unsubscribe 1 2 (jwt 2) db0 =
       (Inl (HTTPException HTTP_404_NOT_FOUND ''No such entry found in database''), db0)"
proof -
  have h1: "student_id_jwt (jwt 2) = 2" by (simp add: jwt_def)
  have h2: "\<not> subscribed db0 1 2" by (simp add: db0_simps)
  show ?thesis
    using h1 h2 unsubscribe_not_found [OF h1 h2] by simp
qed

text \<open>
  C7. When the caller is the student of the request, no subscription for the pair is
  stored, and the channel of the request or its student is not stored, create-subscription
  raises an HTTPException with status 404, which is the status of the response, and
  leaves the database as it was: no subscription is created.
\<close>

theorem subscribe_missing_reference:
  assumes "student_id_jwt current_student = student_id subscription"
    and "\<not> subscribed d (channel_id subscription) (student_id subscription)"
    and "\<not> channel_stored d (channel_id subscription)
         \<or> \<not> student_stored d (student_id subscription)"
  shows "(\<exists>msg. create_new_subscription subscription current_student d =
           (Inl (HTTPException HTTP_404_NOT_FOUND msg), d))
       \<and> http_status HTTP_201_CREATED (fst (create_new_subscription subscription current_student d))
           = HTTP_404_NOT_FOUND"
  using assms
  by (auto simp: create_new_subscription_def get_sub_None get_channel_None
      crud_get_student_None http_status_def)

theorem subscribe_missing_reference_witness:
  "\<not> subscribed db0 9 2 \<and> \<not> channel_stored db0 9
   \<and> create_new_subscription \<lparr>channel_id = 9, student_id = 2\<rparr> (jwt 2) db0 =
       (Inl (HTTPException HTTP_404_NOT_FOUND ''Channel with specified ID does not exist''), db0)
   \<and> \<not> subscribed db0 1 5 \<and> \<not> student_stored db0 5
   \<and> create_new_subscription \<lparr>channel_id = 1, student_id = 5\<rparr> (jwt 5) db0 =
       (Inl (HTTPException HTTP_404_NOT_FOUND ''Student with specified ID does not exist''), db0)"
proof -
  let ?s1 = "\<lparr>channel_id = 9, student_id = 2\<rparr>"
  let ?s2 = "\<lparr>channel_id = 1, student_id = 5\<rparr>"
  have a1: "student_id_jwt (jwt 2) = student_id ?s1" by (simp add: jwt_def)
  have a2: "\<not> subscribed db0 (channel_id ?s1) (student_id ?s1)" by (simp add: db0_simps)
  have a3: "\<not> channel_stored db0 (channel_id ?s1) \<or> \<not> student_stored db0 (student_id ?s1)"
    by (simp add: db0_simps)
  have b1: "student_id_jwt (jwt 5) = student_id ?s2" by (simp add: jwt_def)
  have b2: "\<not> subscribed db0 (channel_id ?s2) (student_id ?s2)" by (simp add: db0_simps)
  have b3: "\<not> channel_stored db0 (channel_id ?s2) \<or> \<not> student_stored db0 (student_id ?s2)"
    by (simp add: db0_simps)
  show ?thesis
    using subscribe_missing_reference [OF a1 a2 a3] subscribe_missing_reference [OF b1 b2 b3]
    by (simp add: create_new_subscription_def crud_simps db0_simps)
qed

text \<open>
  C10. In create-subscription the permission check decides before every other check:
  when the student of the request differs from the caller, the route raises an
  HTTPException with status 403, which is the status of the response, and leaves the
  database as it was, whether or not the pair is subscribed and whether or not the
  channel and the student are stored.
\<close>

theorem create_new_subscription_forbidden:
  "student_id subscription \<noteq> student_id_jwt current_student \<Longrightarrow>
   create_new_subscription subscription current_student d =
     (Inl (HTTPException HTTP_403_FORBIDDEN ''Permission denied''), d)
   \<and> http_status HTTP_201_CREATED (fst (create_new_subscription subscription current_student d))
       = HTTP_403_FORBIDDEN"
  by (simp add: create_new_subscription_def http_status_def)

theorem create_new_subscription_forbidden_witness:
  "subscribed db0 1 1
   \<and> create_new_subscription \<lparr>channel_id = 1, student_id = 1\<rparr> (jwt 2) db0 =
       (Inl (HTTPException HTTP_403_FORBIDDEN ''Permission denied''), db0)
   \<and> \<not> channel_stored db0 9 \<and> \<not> student_stored db0 5
   \<and> create_new_subscription \<lparr>channel_id = 9, student_id = 5\<rparr> (jwt 2) db0 =
       (Inl (HTTPException HTTP_403_FORBIDDEN ''Permission denied''), db0)"
proof -
  have h1: "student_id \<lparr>channel_id = 1, student_id = 1\<rparr> \<noteq> student_id_jwt (jwt 2)"
    by (simp add: jwt_def)
  have h2: "student_id \<lparr>channel_id = 9, student_id = 5\<rparr> \<noteq> student_id_jwt (jwt 2)"
    by (simp add: jwt_def)
  have s: "subscribed db0 1 1 \<and> \<not> channel_stored db0 9 \<and> \<not> student_stored db0 5"
    by (simp add: db0_simps)
  show ?thesis
    using s create_new_subscription_forbidden [OF h1, of db0]
      create_new_subscription_forbidden [OF h2, of db0]
    by simp
qed

subsection \<open>Where the routes depart from what they declare\<close>

text \<open>
  C8. Both delete routes are declared with status 204, but each returns a
  \<^verbatim>\<open>JSONResponse\<close> built from the content alone, and a returned response object is sent
  with its own status: on \<open>db0\<close>, student 1 deleting their own record and student 1
  unsubscribing from channel 1 both succeed (the row is removed) and both respond with
  status 200, not 204.
\<close>

theorem delete_routes_respond_200:
  "delete_student 1 (jwt 1) db0 =
     (Inr (JSONResponse 200 [(''detail'', ''Student deleted'')]),
      db0\<lparr>students := [\<lparr>email = ''b@x.org'', matricule = ''M2'', id_student = 2\<rparr>]\<rparr>)
   \<and> http_status_response HTTP_204_NO_CONTENT (fst (delete_student 1 (jwt 1) db0)) = 200
   \<and> unsubscribe 1 1 (jwt 1) db0 =
     (Inr (JSONResponse 200 [(''detail'', ''Unsubscribed'')]),
      db0\<lparr>subscriptions := [\<lparr>channel_id = 2, student_id = 1\<rparr>]\<rparr>)
   \<and> http_status_response HTTP_204_NO_CONTENT (fst (unsubscribe 1 1 (jwt 1) db0)) = 200"
  by (simp add: delete_student_def unsubscribe_def crud_get_student_def crud_delete_student_def
      crud_unsubscribe_def get_sub_by_channel_and_student_def JSONResponse_content_def
      http_status_response_def db0_def jwt_def)

text \<open>
  C9. With only \<^verbatim>\<open>channel_id=0\<close> supplied, or only \<^verbatim>\<open>student_id=0\<close>, the route does not
  filter: the truthiness tests of the second and third branch take 0 for an absent
  parameter, and the route returns the unfiltered page. On \<open>db0\<close> no subscription has
  channel 0 or student 0, and both requests return both stored subscriptions.
\<close>

theorem get_subscriptions_zero_id:
  "fst (get_subscriptions (Some 0) None 0 100 db0)
     = Inr (Rows [\<lparr>channel_id = 1, student_id = 1\<rparr>, \<lparr>channel_id = 2, student_id = 1\<rparr>])
   \<and> filter (\<lambda>s. channel_id s = 0) (subscriptions db0) = []
   \<and> fst (get_subscriptions None (Some 0) 0 100 db0)
     = Inr (Rows [\<lparr>channel_id = 1, student_id = 1\<rparr>, \<lparr>channel_id = 2, student_id = 1\<rparr>])
   \<and> filter (\<lambda>s. student_id s = 0) (subscriptions db0) = []"
  by (simp add: get_subscriptions_def crud_get_subscriptions_def db0_def)

end
